theory Spec2Isabelle
  imports Complex_Main "HOL-Library.List_Lexorder" "HOL-Library.Char_ord" "HOL-Library.Sublist"
begin

section \<open>The match table\<close>

text \<open>
  The module-level \<^verbatim>\<open>df\<close> of \<^verbatim>\<open>api.py\<close> is a pandas table read from a CSV file.
  A row carries the seven columns the code reads.  Text cells are strings (a character
  stands for one code point below 256), \<^verbatim>\<open>GF\<close> and \<^verbatim>\<open>GA\<close> are integers, and an
  \<^verbatim>\<open>xG\<close> cell may be empty (\<open>None\<close>, which pandas reads as a missing value).
  The code asks whether the table has an \<^verbatim>\<open>xG\<close> column at all
  (\<^verbatim>\<open>'xG' in recent\<close>), so the table records that as \<open>has_xG\<close>.
\<close>

record row =
  date :: string
  Team :: string
  Opponent :: string
  Result :: string
  GF :: int
  GA :: int
  xG :: "rat option"

record frame =
  has_xG :: bool
  rows :: "row list"

text \<open>
  A Python float is either not-a-number or a finite value; finite values are kept as
  exact rationals, so the rounding of binary floating point is left out.  Every
  ordering comparison with not-a-number is false.
\<close>

datatype pyfloat = NaN | Fin rat

fun gt :: "pyfloat \<Rightarrow> pyfloat \<Rightarrow> bool" where
  "gt (Fin a) (Fin b) = (b < a)"
| "gt _ _ = False"

subsection \<open>The pandas operations the code uses\<close>

text \<open>\<^verbatim>\<open>df[mask]\<close>: the rows where the mask holds, in table order.\<close>

definition select :: "(row \<Rightarrow> bool) \<Rightarrow> frame \<Rightarrow> frame" where
  "select p df = df\<lparr>rows := filter p (rows df)\<rparr>"

text \<open>
  \<^verbatim>\<open>sort_values(by='date', ascending=False)\<close>: pandas reverses the rows, sorts them
  ascending by the key and reverses the outcome; with a stable sort, rows of equal
  date keep their table order.
\<close>

definition sort_values_date_desc :: "frame \<Rightarrow> frame" where
  "sort_values_date_desc df = df\<lparr>rows := rev (sort_key date (rev (rows df)))\<rparr>"

text \<open>
  \<^verbatim>\<open>head(n)\<close>: the first \<open>n\<close> rows, and for a negative \<open>n\<close> all rows but the last
  \<open>-n\<close>.
\<close>

definition head :: "int \<Rightarrow> frame \<Rightarrow> frame" where
  "head n df =
     (if 0 \<le> n then df\<lparr>rows := take (nat n) (rows df)\<rparr>
      else df\<lparr>rows := take (length (rows df) - nat (- n)) (rows df)\<rparr>)"

text \<open>\<^verbatim>\<open>(mask).sum()\<close>: the number of rows where the mask holds.\<close>

definition count_where :: "(row \<Rightarrow> bool) \<Rightarrow> frame \<Rightarrow> int" where
  "count_where p df = int (length (filter p (rows df)))"

text \<open>
  \<^verbatim>\<open>column.mean()\<close>: missing cells are skipped, and the mean of no value is
  not-a-number.
\<close>

definition mean :: "rat option list \<Rightarrow> pyfloat" where
  "mean cells =
     (let vs = List.map_filter id cells
      in if vs = [] then NaN else Fin (sum_list vs / of_nat (length vs)))"

definition column_GF :: "frame \<Rightarrow> rat option list" where
  "column_GF df = map (\<lambda>r. Some (of_int (GF r))) (rows df)"

definition column_GA :: "frame \<Rightarrow> rat option list" where
  "column_GA df = map (\<lambda>r. Some (of_int (GA r))) (rows df)"

definition column_xG :: "frame \<Rightarrow> rat option list" where
  "column_xG df = map xG (rows df)"

section \<open>Rule-based prediction\<close>

record form =
  wins :: int
  draws :: int
  losses :: int
  avg_gf :: pyfloat
  avg_ga :: pyfloat
  avg_xg :: pyfloat

definition get_team_form :: "frame \<Rightarrow> string \<Rightarrow> int \<Rightarrow> form" where
  "get_team_form df team n =
     (let recent = head n (sort_values_date_desc (select (\<lambda>r. Team r = team) df))
      in \<lparr> wins = count_where (\<lambda>r. Result r = ''W'') recent,
           draws = count_where (\<lambda>r. Result r = ''D'') recent,
           losses = count_where (\<lambda>r. Result r = ''L'') recent,
           avg_gf = mean (column_GF recent),
           avg_ga = mean (column_GA recent),
           avg_xg = (if has_xG recent then mean (column_xG recent) else Fin 0) \<rparr>)"

record h2h =
  home_wins :: int
  away_wins :: int
  h2h_draws :: int

definition h2h_mask :: "string \<Rightarrow> string \<Rightarrow> row \<Rightarrow> bool" where
  "h2h_mask home away r \<longleftrightarrow>
     (Team r = home \<and> Opponent r = away) \<or> (Team r = away \<and> Opponent r = home)"

definition get_head_to_head :: "frame \<Rightarrow> string \<Rightarrow> string \<Rightarrow> int \<Rightarrow> h2h" where
  "get_head_to_head df home away n =
     (let hh = head n (sort_values_date_desc (select (h2h_mask home away) df))
      in \<lparr> home_wins = count_where (\<lambda>r. Team r = home \<and> Result r = ''W'') hh,
           away_wins = count_where (\<lambda>r. Team r = away \<and> Result r = ''W'') hh,
           h2h_draws = count_where (\<lambda>r. Result r = ''D'') hh \<rparr>)"

definition home_score :: "form \<Rightarrow> form \<Rightarrow> h2h \<Rightarrow> int" where
  "home_score home away hh =
     wins home
     + (if gt (avg_gf home) (avg_ga away) then 1 else 0)
     + (if gt (avg_xg home) (avg_xg away) then 1 else 0)
     + home_wins hh"

definition away_score :: "form \<Rightarrow> form \<Rightarrow> h2h \<Rightarrow> int" where
  "away_score home away hh =
     wins away
     + (if gt (avg_gf away) (avg_ga home) then 1 else 0)
     + (if gt (avg_xg away) (avg_xg home) then 1 else 0)
     + away_wins hh"

definition rule_based_prediction :: "frame \<Rightarrow> string \<Rightarrow> string \<Rightarrow> string" where
  "rule_based_prediction df home_team away_team =
     (let home = get_team_form df home_team 5;
          away = get_team_form df away_team 5;
          hh = get_head_to_head df home_team away_team 5;
          diff = home_score home away hh - away_score home away hh
      in if 2 \<le> diff then home_team @ '' to win''
         else if diff \<le> - 2 then away_team @ '' to win''
         else ''Draw'')"

section \<open>Python string operations\<close>

text \<open>\<^verbatim>\<open>str(i)\<close>, as an f-string renders an integer: decimal digits, with a sign.\<close>

definition digit :: "nat \<Rightarrow> char" where
  "digit d = char_of (48 + d)"

fun digits :: "nat \<Rightarrow> string" where
  "digits n = (if n < 10 then [digit n] else digits (n div 10) @ [digit (n mod 10)])"

declare digits.simps [simp del]

definition str_int :: "int \<Rightarrow> string" where
  "str_int i = (if i < 0 then CHR ''-'' # digits (nat (- i)) else digits (nat i))"

text \<open>
  The format \<^verbatim>\<open>:.2f\<close>: not-a-number prints as \<^verbatim>\<open>nan\<close>, a finite value with two
  decimals, a tie going to the even neighbour.
\<close>

definition round_half_even :: "rat \<Rightarrow> int" where
  "round_half_even q =
     (let f = \<lfloor>q\<rfloor>; d = q - of_int f
      in if d < 1 / 2 then f else if 1 / 2 < d then f + 1 else if even f then f else f + 1)"

definition format_2f :: "pyfloat \<Rightarrow> string" where
  "format_2f x =
     (case x of
        NaN \<Rightarrow> ''nan''
      | Fin q \<Rightarrow>
          (let c = nat (round_half_even (\<bar>q\<bar> * 100))
           in (if q < 0 then ''-'' else []) @ digits (c div 100) @ ''.''
              @ [digit (c mod 100 div 10), digit (c mod 10)]))"

text \<open>
  \<^verbatim>\<open>str.splitlines()\<close>: a line ends at a line boundary (line feed, vertical tab,
  form feed, carriage return, the three separators 0x1C to 0x1E, next line 0x85), a
  carriage return followed by a line feed is one boundary, and no empty line follows
  the last boundary.
\<close>

definition is_linebreak :: "char \<Rightarrow> bool" where
  "is_linebreak c \<longleftrightarrow>
     c = CHR 0x0A \<or> c = CHR 0x0B \<or> c = CHR 0x0C \<or> c = CHR 0x0D
     \<or> c = CHR 0x1C \<or> c = CHR 0x1D \<or> c = CHR 0x1E \<or> c = CHR 0x85"

fun skip_eol :: "string \<Rightarrow> string" where
  "skip_eol [] = []"
| "skip_eol (c # cs) =
     (if c = CHR 0x0D then (case cs of [] \<Rightarrow> [] | d # ds \<Rightarrow> if d = CHR 0x0A then ds else cs)
      else cs)"

function splitlines :: "string \<Rightarrow> string list" where
  "splitlines s =
     (if s = [] then []
      else takeWhile (\<lambda>c. \<not> is_linebreak c) s
           # splitlines (skip_eol (dropWhile (\<lambda>c. \<not> is_linebreak c) s)))"
  by pat_completeness auto
termination
proof (relation "measure length")
  show "wf (measure length)" by simp
next
  fix s :: string
  assume "s \<noteq> []"
  have "length (skip_eol t) \<le> length t - 1" for t
    by (cases t) (auto split: list.splits)
  then have "length (skip_eol (dropWhile (\<lambda>c. \<not> is_linebreak c) s))
          \<le> length (dropWhile (\<lambda>c. \<not> is_linebreak c) s) - 1" .
  also have "\<dots> \<le> length s - 1"
    by (simp add: length_dropWhile_le diff_le_mono)
  also have "\<dots> < length s"
    using \<open>s \<noteq> []\<close> by simp
  finally show "(skip_eol (dropWhile (\<lambda>c. \<not> is_linebreak c) s), s) \<in> measure length"
    by simp
qed

declare splitlines.simps [simp del]

text \<open>\<^verbatim>\<open>str.strip()\<close>: white space is removed at both ends.\<close>

definition is_space :: "char \<Rightarrow> bool" where
  "is_space c \<longleftrightarrow>
     c = CHR 0x09 \<or> c = CHR 0x0A \<or> c = CHR 0x0B \<or> c = CHR 0x0C \<or> c = CHR 0x0D
     \<or> c = CHR 0x1C \<or> c = CHR 0x1D \<or> c = CHR 0x1E \<or> c = CHR 0x1F
     \<or> c = CHR 0x20 \<or> c = CHR 0x85 \<or> c = CHR 0xA0"

definition strip :: "string \<Rightarrow> string" where
  "strip s = rev (dropWhile is_space (rev (dropWhile is_space s)))"

text \<open>
  \<^verbatim>\<open>str.lower()\<close> on code points below 256: the letters A to Z and the accented
  capitals 0xC0 to 0xDE (the multiplication sign 0xD7 apart) move up by 32.
\<close>

definition lower_char :: "char \<Rightarrow> char" where
  "lower_char c =
     (let k = (of_char c :: nat)
      in if (65 \<le> k \<and> k \<le> 90) \<or> (192 \<le> k \<and> k \<le> 222 \<and> k \<noteq> 215) then char_of (k + 32)
         else c)"

definition lower :: "string \<Rightarrow> string" where
  "lower s = map lower_char s"

text \<open>Indexing a list: \<^verbatim>\<open>xs[i]\<close> and \<^verbatim>\<open>xs[-1]\<close> raise out of range.\<close>

datatype error = IndexError

definition item :: "'a list \<Rightarrow> nat \<Rightarrow> error + 'a" where
  "item xs i = (if i < length xs then Inr (xs ! i) else Inl IndexError)"

definition item_last :: "'a list \<Rightarrow> error + 'a" where
  "item_last xs = (if xs = [] then Inl IndexError else Inr (last xs))"

section \<open>Summaries\<close>

definition summarize_form :: "frame \<Rightarrow> string \<Rightarrow> string" where
  "summarize_form matches team_name =
     team_name @ '' - Last '' @ str_int (int (length (rows matches))) @ '' Matches:''
     @ [CHR 0x0A]
     @ ''- Wins: '' @ str_int (count_where (\<lambda>r. Result r = ''W'') matches)
     @ '', Draws: '' @ str_int (count_where (\<lambda>r. Result r = ''D'') matches)
     @ '', Losses: '' @ str_int (count_where (\<lambda>r. Result r = ''L'') matches)
     @ [CHR 0x0A]
     @ ''- Avg Goals Scored: '' @ format_2f (mean (column_GF matches))
     @ '', Avg Goals Conceded: '' @ format_2f (mean (column_GA matches))"

definition summarize_h2h :: "frame \<Rightarrow> string \<Rightarrow> string \<Rightarrow> string" where
  "summarize_h2h matches home away =
     (if rows matches = [] then ''No recent head-to-head match data available.''
      else ''Head-to-Head ('' @ home @ '' vs '' @ away @ '') - Last ''
           @ str_int (int (length (rows matches))) @ '' Matches:''
           @ [CHR 0x0A]
           @ ''- '' @ home @ '' Wins: ''
           @ str_int (count_where (\<lambda>r. Team r = home \<and> Result r = ''W'') matches)
           @ '', '' @ away @ '' Wins: ''
           @ str_int (count_where (\<lambda>r. Team r = away \<and> Result r = ''W'') matches)
           @ '', Draws: '' @ str_int (count_where (\<lambda>r. Result r = ''D'') matches))"

section \<open>The prediction endpoint\<close>

text \<open>
  The request body is a JSON object whose fields are strings; the response is a JSON
  object with string and string-list values, kept in the order the code writes them.
\<close>

datatype json = JString string | JList "string list"

type_synonym response = "(string \<times> json) list"

text \<open>Python's \<^verbatim>\<open>not x\<close> for the outcome of \<^verbatim>\<open>data.get\<close>: an absent or empty name.\<close>

definition is_falsy :: "string option \<Rightarrow> bool" where
  "is_falsy x = (case x of None \<Rightarrow> True | Some s \<Rightarrow> s = [])"

definition build_response :: "frame \<Rightarrow> string \<Rightarrow> string \<Rightarrow> error + response" where
  "build_response df home_team away_team =
     (let prediction = rule_based_prediction df home_team away_team;
          home_form = summarize_form
            (head 10 (sort_values_date_desc (select (\<lambda>r. Team r = home_team) df))) home_team;
          away_form = summarize_form
            (head 10 (sort_values_date_desc (select (\<lambda>r. Team r = away_team) df))) away_team;
          h2h_matches = head 10 (sort_values_date_desc (select (h2h_mask home_team away_team) df));
          h2h_form = summarize_h2h h2h_matches home_team away_team
      in case item (splitlines home_form) 1 of
           Inl e \<Rightarrow> Inl e
         | Inr home_line \<Rightarrow>
        (case item (splitlines away_form) 1 of
           Inl e \<Rightarrow> Inl e
         | Inr away_line \<Rightarrow>
        (case item_last (splitlines h2h_form) of
           Inl e \<Rightarrow> Inl e
         | Inr h2h_line \<Rightarrow>
             Inr [(''prediction'', JString prediction),
                  (''stats'', JList [home_form, away_form, h2h_form]),
                  (''discussion'', JString (strip
                     (home_team @ '' comes into this fixture with '' @ home_line @ ''. ''
                      @ away_team @ '' shows '' @ away_line @ ''. ''
                      @ ''The head-to-head record suggests: '' @ h2h_line @ ''. ''
                      @ ''Considering form and past performance, this match is predicted to end in: ''
                      @ lower prediction @ ''.'')))])))"

definition predict :: "frame \<Rightarrow> (string \<rightharpoonup> string) \<Rightarrow> error + response" where
  "predict df data =
     (let home_team = data ''home_team''; away_team = data ''away_team''
      in if is_falsy home_team \<or> is_falsy away_team
         then Inr [(''error'', JString ''Missing team names.'')]
         else build_response df (the home_team) (the away_team))"

text \<open>Reading a field of the response, as a client does.\<close>

definition get_string :: "error + response \<Rightarrow> string \<Rightarrow> string option" where
  "get_string res key =
     (case res of
        Inl e \<Rightarrow> None
      | Inr obj \<Rightarrow> (case map_of obj key of Some (JString s) \<Rightarrow> Some s | _ \<Rightarrow> None))"

definition get_list :: "error + response \<Rightarrow> string \<Rightarrow> string list option" where
  "get_list res key =
     (case res of
        Inl e \<Rightarrow> None
      | Inr obj \<Rightarrow> (case map_of obj key of Some (JList xs) \<Rightarrow> Some xs | _ \<Rightarrow> None))"

text \<open>The three text blocks of a response, as the handler computes them.\<close>

definition form_block :: "frame \<Rightarrow> string \<Rightarrow> string" where
  "form_block df team =
     summarize_form (head 10 (sort_values_date_desc (select (\<lambda>r. Team r = team) df))) team"

definition h2h_block :: "frame \<Rightarrow> string \<Rightarrow> string \<Rightarrow> string" where
  "h2h_block df home away =
     summarize_h2h (head 10 (sort_values_date_desc (select (h2h_mask home away) df))) home away"

section \<open>Matches and their mirrored rows\<close>

text \<open>
  The data model stores every match as two rows, one from each side.  Two rows belong
  to the same match when they agree on the date and name the same two teams, in either
  order; \<open>spec_drawn_matches\<close> counts the distinct matches among the drawn rows of a
  window, which is the count the specification gives for the draws of a head-to-head
  snapshot.
\<close>

definition same_match :: "row \<Rightarrow> row \<Rightarrow> bool" where
  "same_match r s \<longleftrightarrow>
     date r = date s
     \<and> ((Team r = Team s \<and> Opponent r = Opponent s) \<or> (Team r = Opponent s \<and> Opponent r = Team s))"

fun distinct_matches :: "row list \<Rightarrow> row list" where
  "distinct_matches [] = []"
| "distinct_matches (r # rs) = r # distinct_matches (filter (\<lambda>s. \<not> same_match r s) rs)"

definition h2h_window :: "frame \<Rightarrow> string \<Rightarrow> string \<Rightarrow> int \<Rightarrow> frame" where
  "h2h_window df home away n = head n (sort_values_date_desc (select (h2h_mask home away) df))"

definition spec_drawn_matches :: "frame \<Rightarrow> int" where
  "spec_drawn_matches window =
     int (length (distinct_matches (filter (\<lambda>r. Result r = ''D'') (rows window))))"

section \<open>Sample tables\<close>

definition match_row ::
  "string \<Rightarrow> string \<Rightarrow> string \<Rightarrow> string \<Rightarrow> int \<Rightarrow> int \<Rightarrow> rat option \<Rightarrow> row" where
  "match_row d t opp res gf ga x =
     \<lparr>date = d, Team = t, Opponent = opp, Result = res, GF = gf, GA = ga, xG = x\<rparr>"

definition season :: frame where
  "season = \<lparr>has_xG = True, rows =
     [match_row ''2022-11-06'' ''Chelsea'' ''Arsenal'' ''D'' 1 1 (Some 1),
      match_row ''2022-11-06'' ''Arsenal'' ''Chelsea'' ''D'' 1 1 (Some (13 / 10)),
      match_row ''2023-05-02'' ''Arsenal'' ''Chelsea'' ''W'' 3 1 (Some (24 / 10)),
      match_row ''2023-05-02'' ''Chelsea'' ''Arsenal'' ''L'' 1 3 (Some (7 / 10)),
      match_row ''2023-04-21'' ''Arsenal'' ''Everton'' ''D'' 3 3 (Some (19 / 10)),
      match_row ''2023-04-21'' ''Everton'' ''Arsenal'' ''D'' 3 3 None,
      match_row ''2023-04-09'' ''Arsenal'' ''Spurs'' ''W'' 2 0 (Some (16 / 10)),
      match_row ''2023-04-09'' ''Spurs'' ''Arsenal'' ''L'' 0 2 (Some (4 / 10)),
      match_row ''2022-10-01'' ''Arsenal'' ''Spurs'' ''L'' 1 3 (Some (9 / 10)),
      match_row ''2022-10-01'' ''Spurs'' ''Arsenal'' ''W'' 3 1 (Some (21 / 10)),
      match_row ''2022-08-27'' ''Arsenal'' ''Everton'' ''W'' 2 1 (Some (15 / 10)),
      match_row ''2022-08-27'' ''Everton'' ''Arsenal'' ''L'' 1 2 (Some (8 / 10))]\<rparr>"

definition one_draw :: frame where
  "one_draw = \<lparr>has_xG = True, rows =
     [match_row ''2022-11-06'' ''Arsenal'' ''Chelsea'' ''D'' 1 1 (Some (13 / 10)),
      match_row ''2022-11-06'' ''Chelsea'' ''Arsenal'' ''D'' 1 1 (Some 1)]\<rparr>"

text \<open>A request body naming the two teams.\<close>

definition fixture :: "string \<Rightarrow> string \<Rightarrow> (string \<rightharpoonup> string)" where
  "fixture home away = [''home_team'' \<mapsto> home, ''away_team'' \<mapsto> away]"

section \<open>Windows of the table\<close>

lemma rows_select: "rows (select p df) = filter p (rows df)"
  by (simp add: select_def)

lemma rows_sort: "rows (sort_values_date_desc df) = rev (sort_key date (rev (rows df)))"
  by (simp add: sort_values_date_desc_def)

lemma has_xG_window: "has_xG (head n (sort_values_date_desc (select p df))) = has_xG df"
  by (simp add: head_def sort_values_date_desc_def select_def)

lemma set_rows_head: "set (rows (head n df)) \<subseteq> set (rows df)"
  by (auto simp: head_def dest: in_set_takeD)

lemma set_window: "set (rows (head n (sort_values_date_desc (select p df)))) \<subseteq> {r \<in> set (rows df). p r}"
proof -
  have "set (rows (sort_values_date_desc (select p df))) = {r \<in> set (rows df). p r}"
    by (simp add: rows_sort rows_select)
  with set_rows_head [of n "sort_values_date_desc (select p df)"] show ?thesis by simp
qed

lemma length_window:
  "0 \<le> n \<Longrightarrow> length (rows (head n (sort_values_date_desc (select p df)))) = min (nat n) (length (filter p (rows df)))"
  by (simp add: head_def rows_sort rows_select)

lemma empty_window:
  assumes "filter p (rows df) = []"
  shows "rows (head n (sort_values_date_desc (select p df))) = []"
proof -
  have "set (rows (head n (sort_values_date_desc (select p df)))) \<subseteq> set (filter p (rows df))"
    using set_window [of n p df] by simp
  with assms show ?thesis by simp
qed

lemma count_where_nil: "rows w = [] \<Longrightarrow> count_where p w = 0"
  by (simp add: count_where_def)

lemma mean_nil: "mean [] = NaN"
  by (simp add: mean_def List.map_filter_simps)

lemma gt_NaN_left: "\<not> gt NaN x"
  by simp

lemma gt_NaN_right: "\<not> gt x NaN"
  by (cases x) simp_all

lemma absent_form:
  assumes "filter (\<lambda>r. Team r = t) (rows df) = []"
  shows "wins (get_team_form df t n) = 0" "draws (get_team_form df t n) = 0"
    "losses (get_team_form df t n) = 0"
    "avg_gf (get_team_form df t n) = NaN" "avg_ga (get_team_form df t n) = NaN"
    "avg_xg (get_team_form df t n) = (if has_xG df then NaN else Fin 0)"
  using empty_window [OF assms, of n]
  by (simp_all add: get_team_form_def Let_def count_where_nil column_GF_def column_GA_def
      column_xG_def mean_nil has_xG_window)

lemma count_results:
  assumes "list_all (\<lambda>r. Result r \<in> {''W'', ''D'', ''L''}) xs"
  shows "length (filter (\<lambda>r. Result r = ''W'') xs) + length (filter (\<lambda>r. Result r = ''D'') xs)
       + length (filter (\<lambda>r. Result r = ''L'') xs) = length xs"
  using assms by (induction xs) auto

lemma h2h_mask_swap: "h2h_mask a b = h2h_mask b a"
  by (rule ext) (auto simp: h2h_mask_def)

lemma same_team_draw: "rule_based_prediction df x x = ''Draw''"
  by (simp add: rule_based_prediction_def Let_def home_score_def away_score_def get_head_to_head_def)

lemma to_win_neq_Draw: "h @ '' to win'' \<noteq> ''Draw''"
proof
  assume "h @ '' to win'' = ''Draw''"
  then have "length (h @ '' to win'') = length ''Draw''" by (rule arg_cong)
  then show False by simp
qed

lemma no_xG_column: "\<not> has_xG df \<Longrightarrow> avg_xg (get_team_form df t n) = Fin 0"
  by (simp add: get_team_form_def Let_def has_xG_window)

lemma absent_compare:
  assumes "filter (\<lambda>r. Team r = t) (rows df) = []"
  shows "\<not> gt (avg_gf (get_team_form df t n)) x" "\<not> gt x (avg_ga (get_team_form df t n))"
    "\<not> gt (avg_xg (get_team_form df t n)) (avg_xg (get_team_form df u m))"
    "\<not> gt (avg_xg (get_team_form df u m)) (avg_xg (get_team_form df t n))"
proof -
  show "\<not> gt (avg_gf (get_team_form df t n)) x"
    by (simp add: absent_form(4) [OF assms])
  show "\<not> gt x (avg_ga (get_team_form df t n))"
    by (simp add: absent_form(5) [OF assms] gt_NaN_right)
  show "\<not> gt (avg_xg (get_team_form df t n)) (avg_xg (get_team_form df u m))"
    by (cases "has_xG df") (simp_all add: absent_form(6) [OF assms] no_xG_column)
  show "\<not> gt (avg_xg (get_team_form df u m)) (avg_xg (get_team_form df t n))"
    by (cases "has_xG df") (simp_all add: absent_form(6) [OF assms] no_xG_column gt_NaN_right)
qed

section \<open>Lines of the text blocks\<close>

lemma splitlines_Nil: "splitlines [] = []"
  by (simp add: splitlines.simps)

lemma splitlines_nonempty: "s \<noteq> [] \<Longrightarrow> splitlines s \<noteq> []"
  by (subst splitlines.simps) simp

lemma LF_linebreak: "is_linebreak (CHR 0x0A)"
  by (simp add: is_linebreak_def)

lemma splitlines_after_LF:
  "Suc (length (splitlines b)) \<le> length (splitlines (a @ CHR 0x0A # b))"
proof (induction a rule: length_induct)
  case (1 a)
  let ?P = "\<lambda>c. \<not> is_linebreak c"
  let ?s = "a @ CHR 0x0A # b"
  have unfold: "splitlines ?s = takeWhile ?P ?s # splitlines (skip_eol (dropWhile ?P ?s))"
    by (subst splitlines.simps) simp
  have IH: "Suc (length (splitlines b)) \<le> length (splitlines (ys @ CHR 0x0A # b))"
    if "length ys < length a" for ys
    using 1 that by blast
  show ?case
  proof (cases "\<forall>c\<in>set a. ?P c")
    case True
    then have "dropWhile ?P ?s = CHR 0x0A # b"
      by (simp add: LF_linebreak)
    then show ?thesis
      by (simp add: unfold)
  next
    case False
    then obtain c rest where dw: "dropWhile ?P a = c # rest"
      by (cases "dropWhile ?P a") auto
    have shorter: "length rest < length a"
      using length_dropWhile_le [of ?P a] dw by simp
    from False have dws: "dropWhile ?P ?s = c # rest @ CHR 0x0A # b"
      by (auto simp: dw)
    show ?thesis
    proof (cases "c = CHR 0x0D")
      case notCR: False
      then have "skip_eol (dropWhile ?P ?s) = rest @ CHR 0x0A # b"
        by (simp add: dws)
      with IH [OF shorter] show ?thesis
        by (simp add: unfold)
    next
      case CR: True
      show ?thesis
      proof (cases rest)
        case Nil
        with CR have "skip_eol (dropWhile ?P ?s) = b"
          by (simp add: dws)
        then show ?thesis
          by (simp add: unfold)
      next
        case (Cons d ds)
        show ?thesis
        proof (cases "d = CHR 0x0A")
          case True
          with CR Cons have "skip_eol (dropWhile ?P ?s) = ds @ CHR 0x0A # b"
            by (simp add: dws)
          moreover have "length ds < length a"
            using shorter Cons by simp
          ultimately show ?thesis
            using IH [of ds] by (simp add: unfold)
        next
          case False
          with CR Cons have "skip_eol (dropWhile ?P ?s) = rest @ CHR 0x0A # b"
            by (simp add: dws)
          with IH [OF shorter] show ?thesis
            by (simp add: unfold)
        qed
      qed
    qed
  qed
qed

lemma item_1_splitlines:
  assumes "b \<noteq> []"
  shows "\<exists>l. item (splitlines (a @ CHR 0x0A # b)) 1 = Inr l"
proof -
  have "1 \<le> length (splitlines b)"
    using splitlines_nonempty [OF assms] by (cases "splitlines b") simp_all
  with splitlines_after_LF [of b a] have "1 < length (splitlines (a @ CHR 0x0A # b))"
    by simp
  then show ?thesis by (simp add: item_def)
qed

lemma form_second_line: "\<exists>l. item (splitlines (summarize_form m t)) 1 = Inr l"
proof -
  have "\<exists>a b. summarize_form m t = a @ CHR 0x0A # b \<and> b \<noteq> []"
    unfolding summarize_form_def
    by (intro exI [of _ "t @ '' - Last '' @ str_int (int (length (rows m))) @ '' Matches:''"] exI conjI)
       (simp, simp)
  with item_1_splitlines show ?thesis by metis
qed

lemma summarize_h2h_nonempty: "summarize_h2h m h a \<noteq> []"
  by (simp add: summarize_h2h_def)

lemma h2h_last_line: "\<exists>l. item_last (splitlines (summarize_h2h m h a)) = Inr l"
  using splitlines_nonempty [OF summarize_h2h_nonempty] by (simp add: item_last_def)

lemma strip_keeps_end:
  assumes "x \<in> set pre" "\<not> is_space x" "e \<noteq> []" "\<not> is_space (last e)"
  shows "strip (pre @ e) = dropWhile is_space pre @ e"
proof -
  have "dropWhile is_space (pre @ e) = dropWhile is_space pre @ e"
    using assms(1,2) by simp
  moreover have "dropWhile is_space (rev (dropWhile is_space pre @ e))
      = rev (dropWhile is_space pre @ e)"
    using assms(3,4) by (cases e rule: rev_cases) simp_all
  ultimately show ?thesis by (simp add: strip_def)
qed

lemma build_response_ok:
  "\<exists>home_line away_line h2h_line.
     item (splitlines (form_block df home)) 1 = Inr home_line
   \<and> item (splitlines (form_block df away)) 1 = Inr away_line
   \<and> item_last (splitlines (h2h_block df home away)) = Inr h2h_line
   \<and> build_response df home away =
       Inr [(''prediction'', JString (rule_based_prediction df home away)),
            (''stats'', JList [form_block df home, form_block df away, h2h_block df home away]),
            (''discussion'', JString (strip
               (home @ '' comes into this fixture with '' @ home_line @ ''. ''
                @ away @ '' shows '' @ away_line @ ''. ''
                @ ''The head-to-head record suggests: '' @ h2h_line @ ''. ''
                @ ''Considering form and past performance, this match is predicted to end in: ''
                @ lower (rule_based_prediction df home away) @ ''.'')))]"
proof -
  obtain hl where hl: "item (splitlines (form_block df home)) 1 = Inr hl"
    unfolding form_block_def using form_second_line by blast
  obtain al where al: "item (splitlines (form_block df away)) 1 = Inr al"
    unfolding form_block_def using form_second_line by blast
  obtain ll where ll: "item_last (splitlines (h2h_block df home away)) = Inr ll"
    unfolding h2h_block_def using h2h_last_line by blast
  have "build_response df home away =
       Inr [(''prediction'', JString (rule_based_prediction df home away)),
            (''stats'', JList [form_block df home, form_block df away, h2h_block df home away]),
            (''discussion'', JString (strip
               (home @ '' comes into this fixture with '' @ hl @ ''. ''
                @ away @ '' shows '' @ al @ ''. ''
                @ ''The head-to-head record suggests: '' @ ll @ ''. ''
                @ ''Considering form and past performance, this match is predicted to end in: ''
                @ lower (rule_based_prediction df home away) @ ''.'')))]"
    using hl al ll
    by (simp add: build_response_def Let_def form_block_def h2h_block_def)
  with hl al ll show ?thesis by blast
qed

lemma predict_named:
  assumes "data ''home_team'' = Some home" "data ''away_team'' = Some away" "home \<noteq> []" "away \<noteq> []"
  shows "predict df data = build_response df home away"
  using assms by (simp add: predict_def Let_def is_falsy_def)

lemma h2h_block_empty:
  assumes "filter (h2h_mask home away) (rows df) = []"
  shows "h2h_block df home away = ''No recent head-to-head match data available.''"
  using empty_window [OF assms, of 10] by (simp add: h2h_block_def summarize_h2h_def)

section \<open>The outcome scorer\<close>

text \<open>
  C1.  For every table and every pair of team names, with the form snapshots of both
  teams and the head-to-head snapshot all taken over windows of 5 rows, let the home
  score be the home wins, plus one if the home average of goals scored exceeds the away
  average of goals conceded, plus one if the home average of expected goals exceeds the
  away one, plus the head-to-head home wins, and the away score the same with the sides
  exchanged.  Then \<open>rule_based_prediction\<close> returns the home-win verdict exactly when
  the difference is at least 2, the away-win verdict exactly when it is at most -2, and
  \<open>Draw\<close> exactly in the remaining case.
\<close>

theorem scorer_verdict:
  "(let hf = get_team_form df h 5; af = get_team_form df a 5; hh = get_head_to_head df h a 5;
        hs = wins hf + (if gt (avg_gf hf) (avg_ga af) then 1 else 0)
                     + (if gt (avg_xg hf) (avg_xg af) then 1 else 0) + home_wins hh;
        as = wins af + (if gt (avg_gf af) (avg_ga hf) then 1 else 0)
                     + (if gt (avg_xg af) (avg_xg hf) then 1 else 0) + away_wins hh
    in (rule_based_prediction df h a = h @ '' to win'' \<longleftrightarrow> 2 \<le> hs - as)
     \<and> (rule_based_prediction df h a = a @ '' to win'' \<longleftrightarrow> hs - as \<le> - 2)
     \<and> (rule_based_prediction df h a = ''Draw'' \<longleftrightarrow> \<not> 2 \<le> hs - as \<and> \<not> hs - as \<le> - 2))"
proof (cases "h = a")
  case True
  have "rule_based_prediction df a a = ''Draw''"
    by (rule same_team_draw)
  with True show ?thesis
    by (simp add: Let_def get_head_to_head_def to_win_neq_Draw)
next
  case False
  then show ?thesis
    by (simp add: rule_based_prediction_def Let_def home_score_def away_score_def
        to_win_neq_Draw to_win_neq_Draw [symmetric])
qed

theorem scorer_verdict_witness:
  "(let hf = get_team_form season ''Arsenal'' 5; af = get_team_form season ''Chelsea'' 5;
        hh = get_head_to_head season ''Arsenal'' ''Chelsea'' 5;
        hs = wins hf + (if gt (avg_gf hf) (avg_ga af) then 1 else 0)
                     + (if gt (avg_xg hf) (avg_xg af) then 1 else 0) + home_wins hh;
        as = wins af + (if gt (avg_gf af) (avg_ga hf) then 1 else 0)
                     + (if gt (avg_xg af) (avg_xg hf) then 1 else 0) + away_wins hh
    in (rule_based_prediction season ''Arsenal'' ''Chelsea'' = ''Arsenal'' @ '' to win''
          \<longleftrightarrow> 2 \<le> hs - as)
     \<and> (rule_based_prediction season ''Arsenal'' ''Chelsea'' = ''Chelsea'' @ '' to win''
          \<longleftrightarrow> hs - as \<le> - 2)
     \<and> (rule_based_prediction season ''Arsenal'' ''Chelsea'' = ''Draw''
          \<longleftrightarrow> \<not> 2 \<le> hs - as \<and> \<not> hs - as \<le> - 2))"
  by (rule scorer_verdict)

text \<open>
  C10.  For every table and every team name, scoring the team against itself gives the
  verdict \<open>Draw\<close>.
\<close>

theorem self_fixture_draw: "rule_based_prediction df x x = ''Draw''"
  by (simp add: rule_based_prediction_def Let_def home_score_def away_score_def
      get_head_to_head_def)

theorem self_fixture_draw_witness: "rule_based_prediction season ''Arsenal'' ''Arsenal'' = ''Draw''"
  by (rule self_fixture_draw)

text \<open>
  C4.  If the table has no row of the home team, or none of the away team, then each of
  the four comparisons of averages in the scorer is false and the scorer returns one of
  its three verdicts.  (The averages of goals of the absent team are not-a-number by
  \<open>absent_form\<close>, and \<open>gt\<close> is false whenever an argument is not-a-number by
  \<open>gt_NaN_left\<close> and \<open>gt_NaN_right\<close>; the scorer has no raising path.)
\<close>

theorem absent_team_scoring:
  assumes "filter (\<lambda>r. Team r = home) (rows df) = [] \<or> filter (\<lambda>r. Team r = away) (rows df) = []"
  shows "\<not> gt (avg_gf (get_team_form df home 5)) (avg_ga (get_team_form df away 5))
       \<and> \<not> gt (avg_xg (get_team_form df home 5)) (avg_xg (get_team_form df away 5))
       \<and> \<not> gt (avg_gf (get_team_form df away 5)) (avg_ga (get_team_form df home 5))
       \<and> \<not> gt (avg_xg (get_team_form df away 5)) (avg_xg (get_team_form df home 5))
       \<and> rule_based_prediction df home away \<in> {home @ '' to win'', away @ '' to win'', ''Draw''}"
proof -
  have verdict: "rule_based_prediction df home away \<in> {home @ '' to win'', away @ '' to win'', ''Draw''}"
    by (simp add: rule_based_prediction_def Let_def)
  from assms show ?thesis
  proof
    assume "filter (\<lambda>r. Team r = home) (rows df) = []"
    from absent_compare [OF this] verdict show ?thesis by blast
  next
    assume "filter (\<lambda>r. Team r = away) (rows df) = []"
    from absent_compare [OF this] verdict show ?thesis by blast
  qed
qed

theorem absent_team_scoring_witness:
  "filter (\<lambda>r. Team r = ''Leeds'') (rows season) = []
   \<and> \<not> gt (avg_gf (get_team_form season ''Leeds'' 5)) (avg_ga (get_team_form season ''Spurs'' 5))
   \<and> \<not> gt (avg_xg (get_team_form season ''Leeds'' 5)) (avg_xg (get_team_form season ''Spurs'' 5))
   \<and> \<not> gt (avg_gf (get_team_form season ''Spurs'' 5)) (avg_ga (get_team_form season ''Leeds'' 5))
   \<and> \<not> gt (avg_xg (get_team_form season ''Spurs'' 5)) (avg_xg (get_team_form season ''Leeds'' 5))
   \<and> rule_based_prediction season ''Leeds'' ''Spurs'' = ''Draw''"
proof -
  have a: "filter (\<lambda>r. Team r = ''Leeds'') (rows season) = []" by code_simp
  have b: "rule_based_prediction season ''Leeds'' ''Spurs'' = ''Draw''" by code_simp
  from a b absent_team_scoring [of "''Leeds''" season "''Spurs''", OF disjI1, OF a]
  show ?thesis by simp
qed

section \<open>The form aggregator\<close>

text \<open>
  C5.  If the table has at least 5 rows of team \<open>t\<close> and every row of \<open>t\<close> has the result
  \<open>W\<close>, \<open>D\<close> or \<open>L\<close>, then the wins, draws and losses of \<open>get_team_form df t 5\<close> add
  up to 5.
\<close>

theorem form_counts_sum_to_five:
  assumes "5 \<le> length (filter (\<lambda>r. Team r = t) (rows df))"
    and "list_all (\<lambda>r. Result r \<in> {''W'', ''D'', ''L''}) (filter (\<lambda>r. Team r = t) (rows df))"
  shows "wins (get_team_form df t 5) + draws (get_team_form df t 5)
       + losses (get_team_form df t 5) = 5"
proof -
  let ?w = "head 5 (sort_values_date_desc (select (\<lambda>r. Team r = t) df))"
  have len: "length (rows ?w) = 5"
    using assms(1) by (simp add: length_window)
  have "set (rows ?w) \<subseteq> set (filter (\<lambda>r. Team r = t) (rows df))"
    using set_window [of 5 "\<lambda>r. Team r = t" df] by simp
  with assms(2) have "list_all (\<lambda>r. Result r \<in> {''W'', ''D'', ''L''}) (rows ?w)"
    unfolding list_all_iff by blast
  from count_results [OF this] len
  show ?thesis
    by (simp add: get_team_form_def Let_def count_where_def)
qed

theorem form_counts_sum_to_five_witness:
  "5 \<le> length (filter (\<lambda>r. Team r = ''Arsenal'') (rows season))
   \<and> list_all (\<lambda>r. Result r \<in> {''W'', ''D'', ''L''})
        (filter (\<lambda>r. Team r = ''Arsenal'') (rows season))
   \<and> wins (get_team_form season ''Arsenal'' 5) + draws (get_team_form season ''Arsenal'' 5)
       + losses (get_team_form season ''Arsenal'' 5) = 5"
proof -
  have a: "5 \<le> length (filter (\<lambda>r. Team r = ''Arsenal'') (rows season))"
    by code_simp
  have b: "list_all (\<lambda>r. Result r \<in> {''W'', ''D'', ''L''})
             (filter (\<lambda>r. Team r = ''Arsenal'') (rows season))"
    by code_simp
  from a b form_counts_sum_to_five [OF a b] show ?thesis by simp
qed

text \<open>
  C6.  If the table, which carries the \<^verbatim>\<open>xG\<close> column of the store's schema, has no row
  of team \<open>t\<close>, then for every window size the form snapshot of \<open>t\<close> has zero wins,
  draws and losses, and its three averages are not-a-number.
\<close>

theorem absent_team_form:
  assumes "filter (\<lambda>r. Team r = t) (rows df) = []" and "has_xG df"
  shows "wins (get_team_form df t n) = 0 \<and> draws (get_team_form df t n) = 0
       \<and> losses (get_team_form df t n) = 0
       \<and> avg_gf (get_team_form df t n) = NaN \<and> avg_ga (get_team_form df t n) = NaN
       \<and> avg_xg (get_team_form df t n) = NaN"
  using assms by (simp add: absent_form)

theorem absent_team_form_witness:
  "filter (\<lambda>r. Team r = ''Leeds'') (rows season) = [] \<and> has_xG season
   \<and> wins (get_team_form season ''Leeds'' 5) = 0 \<and> draws (get_team_form season ''Leeds'' 5) = 0
   \<and> losses (get_team_form season ''Leeds'' 5) = 0
   \<and> avg_gf (get_team_form season ''Leeds'' 5) = NaN
   \<and> avg_ga (get_team_form season ''Leeds'' 5) = NaN
   \<and> avg_xg (get_team_form season ''Leeds'' 5) = NaN"
proof -
  have a: "filter (\<lambda>r. Team r = ''Leeds'') (rows season) = []" by code_simp
  have b: "has_xG season" by code_simp
  from a b absent_team_form [OF a b, of 5] show ?thesis by simp
qed

section \<open>The head-to-head aggregator\<close>

text \<open>
  C3.  For every table, every two team names and every window size, exchanging the two
  names exchanges the home wins and the away wins of the head-to-head snapshot and
  leaves its draws unchanged.
\<close>

theorem h2h_swap:
  "home_wins (get_head_to_head df a b n) = away_wins (get_head_to_head df b a n)
   \<and> away_wins (get_head_to_head df a b n) = home_wins (get_head_to_head df b a n)
   \<and> h2h_draws (get_head_to_head df a b n) = h2h_draws (get_head_to_head df b a n)"
  unfolding get_head_to_head_def Let_def h2h_mask_swap [of a b] by simp

theorem h2h_swap_witness:
  "home_wins (get_head_to_head season ''Arsenal'' ''Chelsea'' 5)
     = away_wins (get_head_to_head season ''Chelsea'' ''Arsenal'' 5)
   \<and> away_wins (get_head_to_head season ''Arsenal'' ''Chelsea'' 5)
     = home_wins (get_head_to_head season ''Chelsea'' ''Arsenal'' 5)
   \<and> h2h_draws (get_head_to_head season ''Arsenal'' ''Chelsea'' 5)
     = h2h_draws (get_head_to_head season ''Chelsea'' ''Arsenal'' 5)"
  by (rule h2h_swap)

text \<open>
  C2.  The claim is that the draws of a head-to-head snapshot count every drawn match of
  the window once.  On the table \<open>one_draw\<close>, which holds the two mirrored rows of a
  single drawn match between Arsenal and Chelsea, \<open>get_head_to_head\<close> reports 2 draws,
  while the window holds 1 distinct drawn match.
\<close>

theorem h2h_draws_count_mirrored_rows:
  "h2h_draws (get_head_to_head one_draw ''Arsenal'' ''Chelsea'' 5) = 2
   \<and> spec_drawn_matches (h2h_window one_draw ''Arsenal'' ''Chelsea'' 5) = 1"
  by code_simp

section \<open>The endpoint\<close>

text \<open>
  C7.  If the request lacks \<^verbatim>\<open>home_team\<close> or \<^verbatim>\<open>away_team\<close>, or one of them is the
  empty string, then for every table the handler returns exactly the object with the
  single field \<^verbatim>\<open>error\<close> and the value \<^verbatim>\<open>Missing team names.\<close>; the table plays no
  part in the answer.
\<close>

theorem missing_names_error:
  assumes "data ''home_team'' = None \<or> data ''home_team'' = Some []
         \<or> data ''away_team'' = None \<or> data ''away_team'' = Some []"
  shows "predict df data = Inr [(''error'', JString ''Missing team names.'')]"
  using assms by (auto simp: predict_def Let_def is_falsy_def)

theorem missing_names_error_witness:
  "fixture [] ''Chelsea'' ''home_team'' = Some []
   \<and> predict season (fixture [] ''Chelsea'') = Inr [(''error'', JString ''Missing team names.'')]"
proof -
  have a: "fixture [] ''Chelsea'' ''home_team'' = Some []"
    by (simp add: fixture_def)
  from a missing_names_error [of "fixture [] ''Chelsea''" season] show ?thesis by simp
qed

text \<open>
  C8.  If both names are present and not empty and the table has no row between the two
  teams, then the handler answers with an object whose \<^verbatim>\<open>stats\<close> are the two form
  blocks followed, as third element, by the string
  \<^verbatim>\<open>No recent head-to-head match data available.\<close>
\<close>

theorem no_h2h_message:
  assumes "data ''home_team'' = Some home" "data ''away_team'' = Some away"
    and "home \<noteq> []" "away \<noteq> []"
    and "filter (h2h_mask home away) (rows df) = []"
  shows "get_list (predict df data) ''stats''
           = Some [form_block df home, form_block df away,
                   ''No recent head-to-head match data available.'']"
proof -
  from build_response_ok [of df home away] obtain d where
    "build_response df home away =
       Inr [(''prediction'', JString (rule_based_prediction df home away)),
            (''stats'', JList [form_block df home, form_block df away, h2h_block df home away]),
            (''discussion'', JString d)]"
    by blast
  then show ?thesis
    using predict_named [OF assms(1-4), of df] h2h_block_empty [OF assms(5)]
    by (simp add: get_list_def)
qed

theorem no_h2h_message_witness:
  "fixture ''Chelsea'' ''Spurs'' ''home_team'' = Some ''Chelsea''
   \<and> fixture ''Chelsea'' ''Spurs'' ''away_team'' = Some ''Spurs''
   \<and> filter (h2h_mask ''Chelsea'' ''Spurs'') (rows season) = []
   \<and> get_list (predict season (fixture ''Chelsea'' ''Spurs'')) ''stats''
           = Some [form_block season ''Chelsea'', form_block season ''Spurs'',
                   ''No recent head-to-head match data available.'']"
proof -
  have a: "fixture ''Chelsea'' ''Spurs'' ''home_team'' = Some ''Chelsea''"
    by (simp add: fixture_def)
  have b: "fixture ''Chelsea'' ''Spurs'' ''away_team'' = Some ''Spurs''"
    by (simp add: fixture_def)
  have c: "filter (h2h_mask ''Chelsea'' ''Spurs'') (rows season) = []"
    by code_simp
  have d: "''Chelsea'' \<noteq> []" "''Spurs'' \<noteq> []"
    by simp_all
  from a b c no_h2h_message [OF a b d c] show ?thesis by simp
qed

text \<open>
  C9, as amended.  If both names are present and not empty, the handler succeeds: the
  form blocks have a second line and the head-to-head block a last line, and the
  discussion is the text made of the home name, the second line of the home form block,
  the away name, the second line of the away form block, the last line of the
  head-to-head block and the lower-cased prediction, joined by the handler's fixed
  phrases, with white space stripped at both ends.  It ends with the lower-cased
  prediction followed by a full stop.
\<close>

theorem discussion_from_lines:
  assumes "data ''home_team'' = Some home" "data ''away_team'' = Some away"
    and "home \<noteq> []" "away \<noteq> []"
  shows "\<exists>home_line away_line h2h_line discussion.
     item (splitlines (form_block df home)) 1 = Inr home_line
   \<and> item (splitlines (form_block df away)) 1 = Inr away_line
   \<and> item_last (splitlines (h2h_block df home away)) = Inr h2h_line
   \<and> get_list (predict df data) ''stats''
       = Some [form_block df home, form_block df away, h2h_block df home away]
   \<and> get_string (predict df data) ''prediction'' = Some (rule_based_prediction df home away)
   \<and> get_string (predict df data) ''discussion'' = Some discussion
   \<and> discussion = strip
               (home @ '' comes into this fixture with '' @ home_line @ ''. ''
                @ away @ '' shows '' @ away_line @ ''. ''
                @ ''The head-to-head record suggests: '' @ h2h_line @ ''. ''
                @ ''Considering form and past performance, this match is predicted to end in: ''
                @ lower (rule_based_prediction df home away) @ ''.'')
   \<and> suffix (lower (rule_based_prediction df home away) @ ''.'') discussion"
proof -
  from build_response_ok [of df home away] obtain hl al ll where
    hl: "item (splitlines (form_block df home)) 1 = Inr hl" and
    al: "item (splitlines (form_block df away)) 1 = Inr al" and
    ll: "item_last (splitlines (h2h_block df home away)) = Inr ll" and
    br: "build_response df home away =
       Inr [(''prediction'', JString (rule_based_prediction df home away)),
            (''stats'', JList [form_block df home, form_block df away, h2h_block df home away]),
            (''discussion'', JString (strip
               (home @ '' comes into this fixture with '' @ hl @ ''. ''
                @ away @ '' shows '' @ al @ ''. ''
                @ ''The head-to-head record suggests: '' @ ll @ ''. ''
                @ ''Considering form and past performance, this match is predicted to end in: ''
                @ lower (rule_based_prediction df home away) @ ''.'')))]"
    by blast
  let ?pre = "home @ '' comes into this fixture with '' @ hl @ ''. ''
                @ away @ '' shows '' @ al @ ''. ''
                @ ''The head-to-head record suggests: '' @ ll @ ''. ''
                @ ''Considering form and past performance, this match is predicted to end in: ''"
  let ?e = "lower (rule_based_prediction df home away) @ ''.''"
  let ?d = "strip (?pre @ ?e)"
  have "CHR ''c'' \<in> set ?pre" by simp
  moreover have "\<not> is_space (CHR ''c'')" by (simp add: is_space_def)
  moreover have "?e \<noteq> []" by simp
  moreover have "\<not> is_space (last ?e)" by (simp add: is_space_def)
  ultimately have "?d = dropWhile is_space ?pre @ ?e"
    by (rule strip_keeps_end)
  then have suf: "suffix ?e ?d"
    by (simp add: suffix_def)
  have pr: "predict df data = build_response df home away"
    by (rule predict_named [OF assms])
  have "get_list (predict df data) ''stats'' = Some [form_block df home, form_block df away, h2h_block df home away]"
    by (simp add: pr br get_list_def)
  moreover have "get_string (predict df data) ''prediction'' = Some (rule_based_prediction df home away)"
    by (simp add: pr br get_string_def)
  moreover have "get_string (predict df data) ''discussion'' = Some ?d"
    by (simp add: pr br get_string_def)
  ultimately show ?thesis
    using hl al ll suf by (intro exI [of _ hl] exI [of _ al] exI [of _ ll] exI [of _ ?d]) simp
qed

theorem discussion_from_lines_witness:
  "fixture ''Arsenal'' ''Chelsea'' ''home_team'' = Some ''Arsenal''
   \<and> fixture ''Arsenal'' ''Chelsea'' ''away_team'' = Some ''Chelsea''
   \<and> (\<exists>home_line away_line h2h_line discussion.
     item (splitlines (form_block season ''Arsenal'')) 1 = Inr home_line
   \<and> item (splitlines (form_block season ''Chelsea'')) 1 = Inr away_line
   \<and> item_last (splitlines (h2h_block season ''Arsenal'' ''Chelsea'')) = Inr h2h_line
   \<and> get_list (predict season (fixture ''Arsenal'' ''Chelsea'')) ''stats''
       = Some [form_block season ''Arsenal'', form_block season ''Chelsea'',
               h2h_block season ''Arsenal'' ''Chelsea'']
   \<and> get_string (predict season (fixture ''Arsenal'' ''Chelsea'')) ''prediction''
       = Some (rule_based_prediction season ''Arsenal'' ''Chelsea'')
   \<and> get_string (predict season (fixture ''Arsenal'' ''Chelsea'')) ''discussion'' = Some discussion
   \<and> discussion = strip
               (''Arsenal'' @ '' comes into this fixture with '' @ home_line @ ''. ''
                @ ''Chelsea'' @ '' shows '' @ away_line @ ''. ''
                @ ''The head-to-head record suggests: '' @ h2h_line @ ''. ''
                @ ''Considering form and past performance, this match is predicted to end in: ''
                @ lower (rule_based_prediction season ''Arsenal'' ''Chelsea'') @ ''.'')
   \<and> suffix (lower (rule_based_prediction season ''Arsenal'' ''Chelsea'') @ ''.'') discussion)"
proof -
  have a: "fixture ''Arsenal'' ''Chelsea'' ''home_team'' = Some ''Arsenal''"
    by (simp add: fixture_def)
  have b: "fixture ''Arsenal'' ''Chelsea'' ''away_team'' = Some ''Chelsea''"
    by (simp add: fixture_def)
  have d: "''Arsenal'' \<noteq> []" "''Chelsea'' \<noteq> []"
    by simp_all
  from discussion_from_lines [OF a b d, of season] a b show ?thesis
    by (intro conjI)
qed

text \<open>
  The claim as first stated, that the discussion ends with the lower-cased prediction,
  fails: for Arsenal against Chelsea on the table \<open>season\<close> the prediction is
  \<^verbatim>\<open>Arsenal to win\<close> and the discussion ends with \<^verbatim>\<open>arsenal to win.\<close>, full stop
  included.
\<close>

theorem discussion_end_counterexample:
  "get_string (predict season (fixture ''Arsenal'' ''Chelsea'')) ''prediction''
     = Some ''Arsenal to win''
   \<and> get_string (predict season (fixture ''Arsenal'' ''Chelsea'')) ''discussion'' =
       Some ''Arsenal comes into this fixture with - Wins: 3, Draws: 2, Losses: 1. Chelsea shows - Wins: 0, Draws: 1, Losses: 1. The head-to-head record suggests: - Arsenal Wins: 1, Chelsea Wins: 0, Draws: 2. Considering form and past performance, this match is predicted to end in: arsenal to win.''
   \<and> \<not> suffix (lower ''Arsenal to win'')
         ''Arsenal comes into this fixture with - Wins: 3, Draws: 2, Losses: 1. Chelsea shows - Wins: 0, Draws: 1, Losses: 1. The head-to-head record suggests: - Arsenal Wins: 1, Chelsea Wins: 0, Draws: 2. Considering form and past performance, this match is predicted to end in: arsenal to win.''"
  by code_simp

end
